theory Spec2Isabelle
  imports Complex_Main
begin

section \<open>JavaScript values\<close>

text \<open>
  The values that travel through the program are JSON values and \<open>undefined\<close>.
  A JSON number is a finite double; the program only ever tests a number for being
  zero, so a number is modelled by the rational it denotes (\<open>-0\<close> and \<open>0\<close> are the
  same rational, and both are falsy in JavaScript). \<open>NaN\<close> cannot be written in JSON.
  An object is the list of its own properties.
\<close>

datatype jsval =
    JUndefined
  | JNull
  | JBool bool
  | JNum rat
  | JStr string
  | JArr "jsval list"
  | JObj "(string \<times> jsval) list"

text \<open>ToBoolean: the falsy values are \<open>undefined\<close>, \<open>null\<close>, \<open>false\<close>, \<open>0\<close> and \<open>''\<close>.\<close>

fun truthy :: "jsval \<Rightarrow> bool" where
  "truthy JUndefined = False"
| "truthy JNull = False"
| "truthy (JBool b) = b"
| "truthy (JNum x) = (x \<noteq> 0)"
| "truthy (JStr s) = (s \<noteq> [])"
| "truthy (JArr xs) = True"
| "truthy (JObj kvs) = True"

text \<open>\<open>a || b\<close>: the left operand when it is truthy, the right one otherwise.\<close>

definition js_or :: "jsval \<Rightarrow> jsval \<Rightarrow> jsval" where
  "js_or a b = (if truthy a then a else b)"

text \<open>\<open>row[k]\<close> on an array: reading past the end gives \<open>undefined\<close>.\<close>

definition js_index :: "jsval list \<Rightarrow> nat \<Rightarrow> jsval" where
  "js_index row k = (if k < length row then row ! k else JUndefined)"

text \<open>
  \<open>(n).toString()\<close> for a non-negative integer \<open>n\<close>: its decimal digits, most
  significant first, no leading zero. The digit \<open>d\<close> is the character of code
  \<open>48 + d\<close>.
\<close>

definition digit_char :: "nat \<Rightarrow> char" where
  "digit_char d = char_of (48 + d)"

fun toString_nat :: "nat \<Rightarrow> string" where
  "toString_nat n =
     (if n < 10 then [digit_char n] else toString_nat (n div 10) @ [digit_char (n mod 10)])"

section \<open>The view tab: reshaping the sheet (page.tsx, fetchSheetData)\<close>

datatype TabType = Add | View

text \<open>
  \<open>SheetRow\<close>. The interface declares every field a string, but the fields are
  filled with \<open>row[k] || ''\<close>, so at run time a field holds whatever truthy cell the
  sheet had there; the sequence number alone is always a string.
\<close>

record SheetRow =
  sno :: string
  jobNumber :: jsval
  customerName :: jsval
  jobName :: jsval
  jobLocation :: jsval
  salesPerson :: jsval
  jobSize :: jsval
  quantity :: jsval
  jobCategory :: jsval
  jobBookedDate :: jsval
  jobStatus :: jsval
  deliveryDate :: jsval
  deliveryDetails :: jsval
  remark :: jsval

text \<open>The arrow function given to \<open>map\<close>: one row of cells and its index.\<close>

definition mapRow :: "jsval list \<Rightarrow> nat \<Rightarrow> SheetRow" where
  "mapRow row index =
     \<lparr> sno = toString_nat (index + 1),
       jobNumber = js_or (js_index row 0) (JStr ''''),
       customerName = js_or (js_index row 1) (JStr ''''),
       jobName = js_or (js_index row 2) (JStr ''''),
       jobLocation = js_or (js_index row 3) (JStr ''''),
       salesPerson = js_or (js_index row 4) (JStr ''''),
       jobSize = js_or (js_index row 5) (JStr ''''),
       quantity = js_or (js_index row 6) (JStr ''''),
       jobCategory = js_or (js_index row 7) (JStr ''''),
       jobBookedDate = js_or (js_index row 8) (JStr ''''),
       jobStatus = js_or (js_index row 9) (JStr ''''),
       deliveryDate = js_or (js_index row 10) (JStr ''''),
       deliveryDetails = js_or (js_index row 11) (JStr ''''),
       remark = js_or (js_index row 12) (JStr '''') \<rparr>"

text \<open>\<open>data.data.slice(1).map((row, index) => ...)\<close>.\<close>

definition sheetRows :: "jsval list list \<Rightarrow> SheetRow list" where
  "sheetRows rows = map (\<lambda>(index, row). mapRow row index) (enumerate 0 (drop 1 rows))"

text \<open>The thirteen sheet-derived fields of a record, in column order.\<close>

definition cells_of :: "SheetRow \<Rightarrow> jsval list" where
  "cells_of r =
     [jobNumber r, customerName r, jobName r, jobLocation r, salesPerson r, jobSize r,
      quantity r, jobCategory r, jobBookedDate r, jobStatus r, deliveryDate r,
      deliveryDetails r, remark r]"

text \<open>
  The colour classes of the status badge: a chain of strict comparisons
  (\<open>===\<close>) of the field against three string literals.
\<close>

definition statusClass :: "jsval \<Rightarrow> string" where
  "statusClass s =
     (if s = JStr ''Completed'' then ''bg-green-100 text-green-800''
      else if s = JStr ''In Progress'' then ''bg-yellow-100 text-yellow-800''
      else if s = JStr ''Delivered'' then ''bg-blue-100 text-blue-800''
      else ''bg-gray-100 text-gray-800'')"

section \<open>Decimal digits\<close>

definition is_digit :: "char \<Rightarrow> bool" where
  "is_digit c = (48 \<le> (of_char c :: nat) \<and> (of_char c :: nat) \<le> 57)"

definition digit_value :: "char \<Rightarrow> nat" where
  "digit_value c = of_char c - 48"

text \<open>The number a string of digits denotes.\<close>

definition number_of :: "string \<Rightarrow> nat" where
  "number_of ds = foldl (\<lambda>a c. 10 * a + digit_value c) 0 ds"

text \<open>The last \<open>w\<close> decimal digits of \<open>n\<close>: \<open>n\<close> zero-padded to width \<open>w\<close> when \<open>n < 10 ^ w\<close>.\<close>

fun pad :: "nat \<Rightarrow> nat \<Rightarrow> string" where
  "pad 0 n = []"
| "pad (Suc w) n = pad w (n div 10) @ [digit_char (n mod 10)]"

section \<open>The Date object (ECMA-262, Date objects)\<close>

text \<open>
  A time value is a number of milliseconds since 1970-01-01T00:00:00Z, or \<open>NaN\<close>
  (\<open>None\<close> below) for an invalid date. The definitions follow the abstract operations
  of the language specification by name. \<open>YearFromTime\<close> is specified as the largest
  year whose first day is not after the time; it is computed here from an estimate that
  is off by at most one year, and \<open>YearFromTime_largest\<close> below proves the two agree.
\<close>

definition msPerDay :: int where
  "msPerDay = 86400000"

definition Day :: "int \<Rightarrow> int" where
  "Day t = t div msPerDay"

definition TimeWithinDay :: "int \<Rightarrow> int" where
  "TimeWithinDay t = t mod msPerDay"

definition DaysInYear :: "int \<Rightarrow> int" where
  "DaysInYear y =
     (if y mod 4 \<noteq> 0 then 365 else if y mod 100 \<noteq> 0 then 366
      else if y mod 400 \<noteq> 0 then 365 else 366)"

definition DayFromYear :: "int \<Rightarrow> int" where
  "DayFromYear y =
     365 * (y - 1970) + (y - 1969) div 4 - (y - 1901) div 100 + (y - 1601) div 400"

definition TimeFromYear :: "int \<Rightarrow> int" where
  "TimeFromYear y = msPerDay * DayFromYear y"

definition YearFromTime :: "int \<Rightarrow> int" where
  "YearFromTime t =
     (let d = Day t; y = 1970 + (400 * d) div 146097
      in if d < DayFromYear y then y - 1
         else if DayFromYear (y + 1) \<le> d then y + 1
         else y)"

definition InLeapYear :: "int \<Rightarrow> int" where
  "InLeapYear t = (if DaysInYear (YearFromTime t) = 366 then 1 else 0)"

definition DayWithinYear :: "int \<Rightarrow> int" where
  "DayWithinYear t = Day t - DayFromYear (YearFromTime t)"

definition MonthFromTime :: "int \<Rightarrow> int" where
  "MonthFromTime t =
     (let d = DayWithinYear t; l = InLeapYear t
      in if d < 31 then 0
         else if d < 59 + l then 1
         else if d < 90 + l then 2
         else if d < 120 + l then 3
         else if d < 151 + l then 4
         else if d < 181 + l then 5
         else if d < 212 + l then 6
         else if d < 243 + l then 7
         else if d < 273 + l then 8
         else if d < 304 + l then 9
         else if d < 334 + l then 10
         else 11)"

definition DateFromTime :: "int \<Rightarrow> int" where
  "DateFromTime t =
     (let d = DayWithinYear t; l = InLeapYear t; m = MonthFromTime t
      in if m = 0 then d + 1
         else if m = 1 then d - 30
         else if m = 2 then d - 58 - l
         else if m = 3 then d - 89 - l
         else if m = 4 then d - 119 - l
         else if m = 5 then d - 150 - l
         else if m = 6 then d - 180 - l
         else if m = 7 then d - 211 - l
         else if m = 8 then d - 242 - l
         else if m = 9 then d - 272 - l
         else if m = 10 then d - 303 - l
         else d - 333 - l)"

definition HourFromTime :: "int \<Rightarrow> int" where
  "HourFromTime t = (t div 3600000) mod 24"

definition MinFromTime :: "int \<Rightarrow> int" where
  "MinFromTime t = (t div 60000) mod 60"

definition SecFromTime :: "int \<Rightarrow> int" where
  "SecFromTime t = (t div 1000) mod 60"

definition msFromTime :: "int \<Rightarrow> int" where
  "msFromTime t = t mod 1000"

text \<open>
  The day within the year on which month \<open>m\<close> (0 to 11) starts, \<open>l\<close> being 1 in a leap
  year and 0 otherwise; and the number of days of month \<open>m\<close> (1 to 12) of year \<open>y\<close>.
\<close>

definition monthStart :: "int \<Rightarrow> int \<Rightarrow> int" where
  "monthStart l m =
     (if m = 0 then 0
      else if m = 1 then 31
      else if m = 2 then 59 + l
      else if m = 3 then 90 + l
      else if m = 4 then 120 + l
      else if m = 5 then 151 + l
      else if m = 6 then 181 + l
      else if m = 7 then 212 + l
      else if m = 8 then 243 + l
      else if m = 9 then 273 + l
      else if m = 10 then 304 + l
      else 334 + l)"

definition DaysInMonth :: "int \<Rightarrow> nat \<Rightarrow> nat" where
  "DaysInMonth y m =
     (if m = 2 then (if DaysInYear y = 366 then 29 else 28)
      else if m = 4 \<or> m = 6 \<or> m = 9 \<or> m = 11 then 30
      else 31)"

text \<open>
  \<open>MakeDay\<close>: the day number of the given date, found as the first day of the year
  \<open>ym\<close> plus the start of the month \<open>mn\<close> plus the date.
\<close>

definition MakeDay :: "int \<Rightarrow> int \<Rightarrow> int \<Rightarrow> int" where
  "MakeDay year month date =
     (let ym = year + month div 12; mn = month mod 12
      in DayFromYear ym + monthStart (if DaysInYear ym = 366 then 1 else 0) mn + date - 1)"

definition MakeDate :: "int \<Rightarrow> int \<Rightarrow> int" where
  "MakeDate day time = day * msPerDay + time"

definition TimeClip :: "int \<Rightarrow> int option" where
  "TimeClip t = (if \<bar>t\<bar> > 8640000000000000 then None else Some t)"

text \<open>
  \<open>Date.parse\<close>. The date-only forms of the Date Time String Format
  (\<open>YYYY\<close>, \<open>YYYY-MM\<close>, \<open>YYYY-MM-DD\<close>, the year also written with a sign and six
  digits, \<open>-000000\<close> excluded) denote midnight UTC of that date. For every other string
  the language leaves the result to the host (its own formats, and the local time zone
  for the forms with a time): that is the parameter \<open>host\<close>. A day that the month does
  not have (February 30) is read differently by different engines and is left to
  \<open>host\<close> as well.
\<close>

definition split_year :: "string \<Rightarrow> (int \<times> string) option" where
  "split_year s =
     (if 7 \<le> length s \<and> (hd s = CHR ''+'' \<or> hd s = CHR ''-'')
      then (if list_all is_digit (take 6 (tl s))
                 \<and> \<not> (hd s = CHR ''-'' \<and> number_of (take 6 (tl s)) = 0)
            then Some ((if hd s = CHR ''-'' then - int (number_of (take 6 (tl s)))
                        else int (number_of (take 6 (tl s)))), drop 7 s)
            else None)
      else if 4 \<le> length s \<and> list_all is_digit (take 4 s)
      then Some (int (number_of (take 4 s)), drop 4 s)
      else None)"

definition month_day :: "string \<Rightarrow> (nat \<times> nat) option" where
  "month_day r =
     (if r = [] then Some (1, 1)
      else if length r = 3 \<and> r ! 0 = CHR ''-'' \<and> list_all is_digit (drop 1 r)
      then Some (number_of (drop 1 r), 1)
      else if length r = 6 \<and> r ! 0 = CHR ''-'' \<and> r ! 3 = CHR ''-''
                \<and> list_all is_digit (take 2 (drop 1 r)) \<and> list_all is_digit (drop 4 r)
      then Some (number_of (take 2 (drop 1 r)), number_of (drop 4 r))
      else None)"

definition date_only :: "string \<Rightarrow> (int \<times> nat \<times> nat) option" where
  "date_only s =
     (case split_year s of
        None \<Rightarrow> None
      | Some (y, r) \<Rightarrow>
          (case month_day r of
             None \<Rightarrow> None
           | Some (m, d) \<Rightarrow>
               if 1 \<le> m \<and> m \<le> 12 \<and> 1 \<le> d \<and> d \<le> DaysInMonth y m
               then Some (y, m, d) else None))"

definition Date_parse :: "(string \<Rightarrow> int option) \<Rightarrow> string \<Rightarrow> int option" where
  "Date_parse host s =
     (case date_only s of
        Some (y, m, d) \<Rightarrow> TimeClip (MakeDate (MakeDay y (int m - 1) (int d)) 0)
      | None \<Rightarrow> host s)"

text \<open>
  \<open>toISOString\<close> of a valid time value: \<open>YYYY-MM-DDTHH:mm:ss.sssZ\<close>, the year
  written with a sign and six digits when it is outside 0 to 9999.
\<close>

definition year_string :: "int \<Rightarrow> string" where
  "year_string y =
     (if 0 \<le> y \<and> y \<le> 9999 then pad 4 (nat y)
      else (if y < 0 then ''-'' else ''+'') @ pad 6 (nat \<bar>y\<bar>))"

definition toISOString :: "int \<Rightarrow> string" where
  "toISOString t =
     year_string (YearFromTime t) @ ''-'' @ pad 2 (nat (MonthFromTime t + 1)) @ ''-''
       @ pad 2 (nat (DateFromTime t)) @ ''T'' @ pad 2 (nat (HourFromTime t)) @ '':''
       @ pad 2 (nat (MinFromTime t)) @ '':'' @ pad 2 (nat (SecFromTime t)) @ ''.''
       @ pad 3 (nat (msFromTime t)) @ ''Z''"

text \<open>What a \<open>catch\<close> clause receives: an \<open>Error\<close> with its message, or another value.\<close>

datatype thrown = JsError string | NotAnError

text \<open>
  \<open>new Date(s).toISOString().split('T')[0]\<close>: \<open>toISOString\<close> throws a
  \<open>RangeError\<close> on an invalid date; \<open>split('T')[0]\<close> is the text before the first
  \<open>T\<close>.
\<close>

definition isoDate :: "(string \<Rightarrow> int option) \<Rightarrow> string \<Rightarrow> thrown + string" where
  "isoDate host s =
     (case Date_parse host s of
        None \<Rightarrow> Inl (JsError ''Invalid time value'')
      | Some t \<Rightarrow> Inr (takeWhile (\<lambda>c. c \<noteq> CHR ''T'') (toISOString t)))"

section \<open>The write endpoint (route.ts, POST)\<close>

text \<open>
  \<open>body.name\<close> on a parsed JSON value that is not \<open>null\<close>: the property of an
  object (an object lists each of its keys once), and \<open>undefined\<close> on an object without
  it and on a string, number, boolean or array, none of which has a property of any of
  the names the handler reads. On \<open>null\<close> the read throws a \<open>TypeError\<close>.
\<close>

fun js_prop :: "jsval \<Rightarrow> string \<Rightarrow> jsval" where
  "js_prop (JObj kvs) k = (case map_of kvs k of Some v \<Rightarrow> v | None \<Rightarrow> JUndefined)"
| "js_prop v k = JUndefined"

definition nullish :: "jsval \<Rightarrow> bool" where
  "nullish v = (v = JNull \<or> v = JUndefined)"

text \<open>
  The \<open>TypeError\<close> that reading the property \<open>name\<close> of \<open>null\<close> or of
  \<open>undefined\<close> throws, with the message that the engine of the route (V8) gives it:
  \<open>Cannot read properties of null (reading 'jobNumber')\<close>.
\<close>

definition TypeError_reading :: "jsval \<Rightarrow> string \<Rightarrow> thrown" where
  "TypeError_reading v name =
     JsError (''Cannot read properties of ''
              @ (if v = JNull then ''null'' else ''undefined'')
              @ '' (reading '' @ [CHR 0x27] @ name @ [CHR 0x27] @ '')'')"

text \<open>The arguments of \<open>sheets.spreadsheets.values.get\<close> and \<open>...values.append\<close>.\<close>

record values_get =
  spreadsheetId :: "string option"
  sheetRange :: string

record values_append = values_get +
  valueInputOption :: string
  requestBody_values :: "jsval list list"

text \<open>
  The JSON bodies of the write endpoint, \<open>{success: true, message, data}\<close> and
  \<open>{success: false, message, error}\<close>, and of the read endpoint,
  \<open>{success: true, data}\<close> and \<open>{success: false, message}\<close>.
\<close>

datatype submit_body = SubmitOk string jsval | SubmitError string string

datatype sheet_body = SheetOk "jsval list list" | SheetError string

record 'b http_response =
  status :: nat
  body :: 'b

definition rowData :: "jsval \<Rightarrow> string \<Rightarrow> jsval list" where
  "rowData b submissionDate =
     [js_prop b ''jobNumber'',
      js_prop b ''customerName'',
      js_prop b ''jobName'',
      js_prop b ''jobLocation'',
      js_prop b ''salesPerson'',
      js_prop b ''jobSize'',
      js_prop b ''quantity'',
      js_prop b ''jobCategory'',
      js_prop b ''jobBookedDate'',
      js_prop b ''jobStatus'',
      js_prop b ''deliveryDate'',
      js_prop b ''deliveryDetails'',
      js_or (js_prop b ''remark'') (JStr ''''),
      JStr submissionDate]"

text \<open>The \<open>catch\<close> clause of \<open>POST\<close>.\<close>

definition POST_failed :: "thrown \<Rightarrow> submit_body http_response" where
  "POST_failed e =
     \<lparr> status = 500,
       body = SubmitError ''Failed to submit job entry''
                (case e of JsError m \<Rightarrow> m | NotAnError \<Rightarrow> ''Unknown error'') \<rparr>"

text \<open>
  \<open>POST\<close>. Its inputs are the environment variable \<open>GOOGLE_SHEET_ID\<close>, the clock
  (the time value of \<open>new Date()\<close>), the backend's append operation (authentication
  included: \<open>Inl\<close> is what it throws, \<open>Inr\<close> the \<open>data\<close> of its response) and the
  outcome of \<open>request.json()\<close>. It returns the HTTP response together with the append
  calls it made, in order.
\<close>

definition POST ::
  "string option \<Rightarrow> int \<Rightarrow> (values_append \<Rightarrow> thrown + jsval) \<Rightarrow> thrown + jsval
     \<Rightarrow> submit_body http_response \<times> values_append list" where
  "POST SPREADSHEET_ID now valuesAppend request_json =
     (case request_json of
        Inl e \<Rightarrow> (POST_failed e, [])
      | Inr b \<Rightarrow>
          if nullish b then (POST_failed (TypeError_reading b ''jobNumber''), [])
          else
            (let submissionDate = toISOString now;
                 call = \<lparr> spreadsheetId = SPREADSHEET_ID, sheetRange = ''Sheet1!A:N'',
                          valueInputOption = ''USER_ENTERED'',
                          requestBody_values = [rowData b submissionDate] \<rparr>
             in case valuesAppend call of
                  Inl e \<Rightarrow> (POST_failed e, [call])
                | Inr d \<Rightarrow>
                    (\<lparr> status = 200,
                       body = SubmitOk ''Job entry submitted successfully!'' d \<rparr>, [call])))"

text \<open>The probe \<open>GET\<close> of the same route: \<open>{status: 'ok', message}\<close>.\<close>

definition GET_probe :: "(string \<times> string) http_response" where
  "GET_probe = \<lparr> status = 200, body = (''ok'', ''Form submission API is working'') \<rparr>"

section \<open>The read endpoint (sheet-data route, GET)\<close>

text \<open>
  \<open>GET\<close>. Its inputs are \<open>GOOGLE_SHEET_ID\<close> and the backend's read operation
  (\<open>Inl\<close> is what it throws, \<open>Inr\<close> the \<open>values\<close> of its response, \<open>None\<close> when the
  response has none). \<open>!spreadsheetId\<close> holds for an unset and for an empty variable.
\<close>

definition GET_failed :: "sheet_body http_response" where
  "GET_failed = \<lparr> status = 500, body = SheetError ''Failed to fetch sheet data'' \<rparr>"

definition GET ::
  "string option \<Rightarrow> (values_get \<Rightarrow> thrown + jsval list list option)
     \<Rightarrow> sheet_body http_response \<times> values_get list" where
  "GET GOOGLE_SHEET_ID valuesGet =
     (if GOOGLE_SHEET_ID = None \<or> GOOGLE_SHEET_ID = Some []
      then (GET_failed, [])
      else
        (let call = \<lparr> spreadsheetId = GOOGLE_SHEET_ID, sheetRange = ''Sheet1!A:O'' \<rparr>
         in case valuesGet call of
              Inl e \<Rightarrow> (GET_failed, [call])
            | Inr vs \<Rightarrow>
                (\<lparr> status = 200,
                   body = SheetOk (case vs of Some v \<Rightarrow> v | None \<Rightarrow> []) \<rparr>, [call])))"

section \<open>The page (page.tsx, Home)\<close>

text \<open>
  \<open>FormData\<close>: twelve required strings and the optional remark. The same record holds
  the values of the form's inputs, which \<open>reset()\<close> empties: every input, the remark's
  too, then reads \<open>''\<close>.
\<close>

record FormData =
  fd_jobNumber :: string
  fd_customerName :: string
  fd_jobName :: string
  fd_jobLocation :: string
  fd_salesPerson :: string
  fd_jobSize :: string
  fd_quantity :: string
  fd_jobCategory :: string
  fd_jobBookedDate :: string
  fd_jobStatus :: string
  fd_deliveryDate :: string
  fd_deliveryDetails :: string
  fd_remark :: "string option"

definition emptyForm :: FormData where
  "emptyForm =
     \<lparr> fd_jobNumber = [], fd_customerName = [], fd_jobName = [], fd_jobLocation = [],
       fd_salesPerson = [], fd_jobSize = [], fd_quantity = [], fd_jobCategory = [],
       fd_jobBookedDate = [], fd_jobStatus = [], fd_deliveryDate = [],
       fd_deliveryDetails = [], fd_remark = Some [] \<rparr>"

text \<open>
  What \<open>await fetch(...)\<close> followed by \<open>await response.json()\<close> comes to: the
  request is rejected; or a response arrives, with its \<open>ok\<close> flag, whose body is not
  JSON; or one whose body is JSON. The JSON bodies are those of the two endpoints above.
\<close>

datatype 'b fetched = Rejected thrown | NotJson bool thrown | Json bool 'b

record SubmitStatus =
  success :: bool
  message :: string

text \<open>
  The calls a handler makes without waiting for them, in order: the error log, the POST
  to the write endpoint with its body, \<open>reset()\<close>, a call of \<open>fetchSheetData\<close>, and
  the timer that clears the banner.
\<close>

datatype effect =
    ConsoleError
  | PostSubmit FormData
  | Reset
  | FetchSheetData
  | SetTimeout nat

record state =
  activeTab :: TabType
  isSubmitting :: bool
  submitStatus :: "SubmitStatus option"
  sheetData :: "SheetRow list"
  isFetchingData :: bool
  formValues :: FormData

definition init :: state where
  "init =
     \<lparr> activeTab = Add, isSubmitting = False, submitStatus = None, sheetData = [],
       isFetchingData = False, formValues = emptyForm \<rparr>"

text \<open>\<open>data.data\<close> of a body of the read endpoint.\<close>

fun data_of :: "sheet_body \<Rightarrow> jsval list list option" where
  "data_of (SheetOk rows) = Some rows"
| "data_of (SheetError m) = None"

text \<open>
  \<open>fetchSheetData\<close>, from the request to the \<open>finally\<close> clause. An array is truthy,
  so \<open>response.ok && data.data\<close> holds when the response is ok and has a \<open>data\<close>.
\<close>

definition fetchSheetData_failed :: "state \<Rightarrow> state \<times> effect list" where
  "fetchSheetData_failed st =
     (st\<lparr> submitStatus :=
            Some \<lparr> success = False, message = ''Failed to load data. Please try again.'' \<rparr>,
          isFetchingData := False \<rparr>,
      [ConsoleError])"

definition fetchSheetData :: "sheet_body fetched \<Rightarrow> state \<Rightarrow> state \<times> effect list" where
  "fetchSheetData response st =
     (case response of
        Rejected e \<Rightarrow> fetchSheetData_failed st
      | NotJson ok e \<Rightarrow> fetchSheetData_failed st
      | Json ok d \<Rightarrow>
          (case data_of d of
             Some rows \<Rightarrow>
               if ok then (st\<lparr> sheetData := sheetRows rows, isFetchingData := False \<rparr>, [])
               else (st\<lparr> isFetchingData := False \<rparr>, [])
           | None \<Rightarrow> (st\<lparr> isFetchingData := False \<rparr>, [])))"

text \<open>
  The tab buttons, with the effect hook on \<open>activeTab\<close>: the hook runs when the tab
  has changed, and calls \<open>fetchSheetData\<close> when the new tab is the view tab.
\<close>

definition setActiveTab :: "TabType \<Rightarrow> state \<Rightarrow> state \<times> effect list" where
  "setActiveTab tab st =
     (if activeTab st = tab then (st, [])
      else (st\<lparr> activeTab := tab \<rparr>, if tab = View then [FetchSheetData] else []))"

text \<open>What the page shows under the tabs.\<close>

datatype content = EntryForm | Spinner | Table "SheetRow list" | EmptyState

definition tabContent :: "state \<Rightarrow> content" where
  "tabContent st =
     (if activeTab st = Add then EntryForm
      else if isFetchingData st then Spinner
      else if length (sheetData st) > 0 then Table (sheetData st)
      else EmptyState)"

text \<open>
  The date formatting of \<open>onSubmit\<close>: an empty date stays empty, another one goes
  through \<open>Date\<close>; the booked date is evaluated first.
\<close>

definition formatDate :: "(string \<Rightarrow> int option) \<Rightarrow> string \<Rightarrow> thrown + string" where
  "formatDate host s = (if s = [] then Inr [] else isoDate host s)"

definition formattedData :: "(string \<Rightarrow> int option) \<Rightarrow> FormData \<Rightarrow> thrown + FormData" where
  "formattedData host formData =
     (case formatDate host (fd_jobBookedDate formData) of
        Inl e \<Rightarrow> Inl e
      | Inr booked \<Rightarrow>
          (case formatDate host (fd_deliveryDate formData) of
             Inl e \<Rightarrow> Inl e
           | Inr delivery \<Rightarrow>
               Inr (formData\<lparr> fd_jobBookedDate := booked, fd_deliveryDate := delivery \<rparr>)))"

text \<open>\<open>result.message\<close>, and \<open>m || fallback\<close> on strings.\<close>

fun message_of :: "submit_body \<Rightarrow> string" where
  "message_of (SubmitOk m d) = m"
| "message_of (SubmitError m e) = m"

definition or_string :: "string \<Rightarrow> string \<Rightarrow> string" where
  "or_string m fallback = (if m = [] then fallback else m)"

text \<open>The \<open>catch\<close> and \<open>finally\<close> clauses of \<open>onSubmit\<close>.\<close>

definition onSubmit_failed :: "thrown \<Rightarrow> state \<Rightarrow> effect list \<Rightarrow> state \<times> effect list" where
  "onSubmit_failed e st made =
     (st\<lparr> submitStatus :=
            Some \<lparr> success = False,
                   message = (case e of JsError m \<Rightarrow> m
                              | NotAnError \<Rightarrow> ''Failed to submit job entry. Please try again.'') \<rparr>,
          isSubmitting := False \<rparr>,
      made @ [ConsoleError, SetTimeout 5000])"

text \<open>
  \<open>onSubmit\<close>. \<open>host\<close> is the host's date parsing, \<open>submit\<close> the network: what the
  POST of a body comes to. \<open>activeTab\<close> is the one of the render the handler belongs to.
\<close>

definition onSubmit ::
  "(string \<Rightarrow> int option) \<Rightarrow> (FormData \<Rightarrow> submit_body fetched) \<Rightarrow> FormData \<Rightarrow> state
     \<Rightarrow> state \<times> effect list" where
  "onSubmit host submit formData st =
     (let st1 = st\<lparr> isSubmitting := True, submitStatus := None \<rparr>
      in case formattedData host formData of
           Inl e \<Rightarrow> onSubmit_failed e st1 []
         | Inr formatted \<Rightarrow>
             (case submit formatted of
                Rejected e \<Rightarrow> onSubmit_failed e st1 [PostSubmit formatted]
              | NotJson ok e \<Rightarrow> onSubmit_failed e st1 [PostSubmit formatted]
              | Json ok result \<Rightarrow>
                  if \<not> ok
                  then onSubmit_failed
                         (JsError (or_string (message_of result) ''Failed to submit job entry''))
                         st1 [PostSubmit formatted]
                  else
                    (st1\<lparr> submitStatus :=
                            Some \<lparr> success = True,
                                   message = or_string (message_of result)
                                               ''Job entry submitted successfully!'' \<rparr>,
                          formValues := emptyForm,
                          isSubmitting := False \<rparr>,
                     [PostSubmit formatted, Reset]
                       @ (if activeTab st = View then [FetchSheetData] else [])
                       @ [SetTimeout 5000])))"

text \<open>The timer's callback.\<close>

definition clearStatus :: "state \<Rightarrow> state" where
  "clearStatus st = st\<lparr> submitStatus := None \<rparr>"

text \<open>
  \<open>JSON.stringify(formattedData)\<close> read back by \<open>request.json()\<close>: an object with
  the form's keys, without the remark when it is \<open>undefined\<close>.
\<close>

definition json_body :: "FormData \<Rightarrow> jsval" where
  "json_body f =
     JObj ([(''jobNumber'', JStr (fd_jobNumber f)),
            (''customerName'', JStr (fd_customerName f)),
            (''jobName'', JStr (fd_jobName f)),
            (''jobLocation'', JStr (fd_jobLocation f)),
            (''salesPerson'', JStr (fd_salesPerson f)),
            (''jobSize'', JStr (fd_jobSize f)),
            (''quantity'', JStr (fd_quantity f)),
            (''jobCategory'', JStr (fd_jobCategory f)),
            (''jobBookedDate'', JStr (fd_jobBookedDate f)),
            (''jobStatus'', JStr (fd_jobStatus f)),
            (''deliveryDate'', JStr (fd_deliveryDate f)),
            (''deliveryDetails'', JStr (fd_deliveryDetails f))]
           @ (case fd_remark f of None \<Rightarrow> [] | Some r \<Rightarrow> [(''remark'', JStr r)]))"

section \<open>Predicates and inputs used in the statements\<close>

text \<open>
  Two sheets agree on what is displayed: they have equally many rows after the first,
  and each such row reads the same at the indices 0 to 12.
\<close>

definition same_displayed_cells :: "jsval list list \<Rightarrow> jsval list list \<Rightarrow> bool" where
  "same_displayed_cells a b =
     list_all2 (\<lambda>r r'. list_all (\<lambda>k. js_index r k = js_index r' k) [0..<13])
       (drop 1 a) (drop 1 b)"

text \<open>A sheet whose only data row has the number 0 as its quantity.\<close>

definition sheet_with_zero :: "jsval list list" where
  "sheet_with_zero =
     [[JStr ''Job#'', JStr ''Customer''],
      [JStr ''J001'', JStr ''Acme'', JStr ''Flyer'', JStr ''Pune'', JStr ''Ravi'', JStr ''A4'',
       JNum 0]]"

text \<open>Two sheets that differ in the header, in column 14 and in column 15 only.\<close>

definition sheet_a :: "jsval list list" where
  "sheet_a =
     [[JStr ''Job#''],
      [JStr ''J001'', JStr ''Acme'', JStr ''Flyer'', JStr ''Pune'', JStr ''Ravi'', JStr ''A4'',
       JStr ''500'', JStr ''Print'', JStr ''2024-01-15'', JStr ''Pending'', JStr ''2024-02-01'',
       JStr ''Courier'', JStr ''urgent'', JStr ''2024-01-15T10:00:00.000Z'', JStr ''web'']]"

definition sheet_b :: "jsval list list" where
  "sheet_b =
     [[JStr ''Number'', JStr ''Customer''],
      [JStr ''J001'', JStr ''Acme'', JStr ''Flyer'', JStr ''Pune'', JStr ''Ravi'', JStr ''A4'',
       JStr ''500'', JStr ''Print'', JStr ''2024-01-15'', JStr ''Pending'', JStr ''2024-02-01'',
       JStr ''Courier'', JStr ''urgent'', JStr ''2025-06-30T08:30:00.000Z'']]"

text \<open>The submission of the specification's example: every field given, no remark.\<close>

definition example_form :: FormData where
  "example_form =
     \<lparr> fd_jobNumber = ''J001'', fd_customerName = ''Acme'', fd_jobName = ''Flyer'',
       fd_jobLocation = ''Pune'', fd_salesPerson = ''Ravi'', fd_jobSize = ''A4'',
       fd_quantity = ''500'', fd_jobCategory = ''Print'', fd_jobBookedDate = ''2024-01-15'',
       fd_jobStatus = ''Pending'', fd_deliveryDate = ''2024-02-01'',
       fd_deliveryDetails = ''Courier'', fd_remark = None \<rparr>"

text \<open>
  A backend that accepts every row, one that rejects every call with an \<open>Error\<close>,
  and one that throws a value that is not an \<open>Error\<close>.
\<close>

definition backend_accepts :: "values_append \<Rightarrow> thrown + jsval" where
  "backend_accepts call = Inr (JObj [(''updates'', JObj [(''updatedRows'', JNum 1)])])"

definition backend_rejects :: "values_append \<Rightarrow> thrown + jsval" where
  "backend_rejects call = Inl (JsError ''The caller does not have permission'')"

definition backend_throws_value :: "values_append \<Rightarrow> thrown + jsval" where
  "backend_throws_value call = Inl NotAnError"

text \<open>The append call that \<open>POST\<close> makes for a body that is not \<open>null\<close>.\<close>

definition appendCall :: "string option \<Rightarrow> int \<Rightarrow> jsval \<Rightarrow> values_append" where
  "appendCall sid now b =
     \<lparr> spreadsheetId = sid, sheetRange = ''Sheet1!A:N'', valueInputOption = ''USER_ENTERED'',
       requestBody_values = [rowData b (toISOString now)] \<rparr>"

text \<open>A backend read that returns the given values, and one that fails.\<close>

definition read_returns :: "jsval list list option \<Rightarrow> values_get \<Rightarrow> thrown + jsval list list option" where
  "read_returns vs call = Inr vs"

definition read_rejects :: "values_get \<Rightarrow> thrown + jsval list list option" where
  "read_rejects call = Inl (JsError ''Requested entity was not found'')"


text \<open>
  The submission succeeded: the dates were formatted, the request came back with a JSON
  body, and the response was ok.
\<close>

definition submitted_ok ::
  "(string \<Rightarrow> int option) \<Rightarrow> (FormData \<Rightarrow> submit_body fetched) \<Rightarrow> FormData \<Rightarrow> bool" where
  "submitted_ok host submit formData =
     (case formattedData host formData of
        Inl e \<Rightarrow> False
      | Inr formatted \<Rightarrow>
          (case submit formatted of
             Rejected e \<Rightarrow> False
           | NotJson ok e \<Rightarrow> False
           | Json ok result \<Rightarrow> ok))"

text \<open>
  A host that recognises no date format of its own; a network that answers every
  submission with the write endpoint's success, and one that answers with its failure;
  the page after the view tab was opened, its data loaded, and the add tab opened again.
\<close>

definition no_host :: "string \<Rightarrow> int option" where
  "no_host s = None"

definition network_ok :: "FormData \<Rightarrow> submit_body fetched" where
  "network_ok formatted = Json True (SubmitOk ''Job entry submitted successfully!'' (JObj []))"

definition network_500 :: "FormData \<Rightarrow> submit_body fetched" where
  "network_500 formatted =
     Json False (SubmitError ''Failed to submit job entry'' ''The caller does not have permission'')"

definition visited_view_before :: state where
  "visited_view_before =
     fst (setActiveTab Add
       (fst (fetchSheetData (Json True (SheetOk sheet_a)) (fst (setActiveTab View init)))))"







section \<open>Properties of the reshaping\<close>

lemma falsy_iff:
  "(\<not> truthy v) = (v \<in> {JUndefined, JNull, JBool False, JNum 0, JStr ''''})"
  by (cases v) auto

lemma upt_13: "[0..<13] = [0,1,2,3,4,5,6,7,8,9,10,11,12::nat]"
  by code_simp

lemma length_sheetRows: "length (sheetRows rows) = length rows - 1"
  by (simp add: sheetRows_def)

lemma nth_sheetRows: "i < length rows - 1 \<Longrightarrow> sheetRows rows ! i = mapRow (rows ! (i + 1)) i"
  by (simp add: sheetRows_def nth_enumerate_eq)

lemma cells_of_mapRow:
  "cells_of (mapRow row index) = map (\<lambda>k. js_or (js_index row k) (JStr '''')) [0..<13]"
  unfolding upt_13 by (simp add: cells_of_def mapRow_def)






lemma digit_value_digit_char: "d < 10 \<Longrightarrow> digit_value (digit_char d) = d"
  by (simp add: digit_value_def digit_char_def)

lemma is_digit_digit_char: "d < 10 \<Longrightarrow> is_digit (digit_char d)"
  by (simp add: is_digit_def digit_char_def)

lemma number_of_snoc: "number_of (ds @ [c]) = 10 * number_of ds + digit_value c"
  by (simp add: number_of_def)

lemma number_of_toString_nat: "number_of (toString_nat n) = n"
proof (induction n rule: toString_nat.induct)
  case (1 n)
  show ?case
  proof (cases "n < 10")
    case True
    then show ?thesis by (simp add: number_of_def digit_value_digit_char)
  next
    case False
    with 1 have "number_of (toString_nat (n div 10)) = n div 10" by simp
    with False show ?thesis
      by (subst toString_nat.simps) (simp add: number_of_snoc digit_value_digit_char)
  qed
qed

lemma toString_nat_digits: "list_all is_digit (toString_nat n)"
proof (induction n rule: toString_nat.induct)
  case (1 n)
  show ?case
  proof (cases "n < 10")
    case True
    then show ?thesis by (simp add: is_digit_digit_char)
  next
    case False
    with 1 show ?thesis
      by (subst toString_nat.simps) (simp add: is_digit_digit_char)
  qed
qed




text \<open>
  C7. The status class is a total function of the field (it is a chain of comparisons,
  and nothing in it can throw): on a string it is the green class for \<open>Completed\<close>, the
  yellow one for \<open>In Progress\<close>, the blue one for \<open>Delivered\<close> and the grey one for every
  other string, \<open>Pending\<close> and strings outside the status set alike.
\<close>

theorem statusClass_strings:
  "statusClass (JStr s) =
     (if s = ''Completed'' then ''bg-green-100 text-green-800''
      else if s = ''In Progress'' then ''bg-yellow-100 text-yellow-800''
      else if s = ''Delivered'' then ''bg-blue-100 text-blue-800''
      else ''bg-gray-100 text-gray-800'')
   \<and> statusClass (JStr ''SomethingElse'') = ''bg-gray-100 text-gray-800''
   \<and> statusClass (JStr ''Pending'') = ''bg-gray-100 text-gray-800''"
  by (simp add: statusClass_def)

text \<open>
  C9. In record \<open>i\<close> of the reshaped sheet, field \<open>k\<close> is the empty string whenever cell
  \<open>k\<close> of its row is falsy: absent (\<open>undefined\<close>), \<open>null\<close>, \<open>false\<close>, the number 0 or
  the empty string. In particular a quantity cell holding the number 0 gives the same
  quantity as a row that ends before the quantity.
\<close>

theorem falsy_cell_empty:
  "i < length rows - 1 \<Longrightarrow> k < 13
     \<Longrightarrow> js_index (rows ! (i + 1)) k \<in> {JUndefined, JNull, JBool False, JNum 0, JStr ''''}
     \<Longrightarrow> cells_of (sheetRows rows ! i) ! k = JStr ''''"
proof -
  assume i: "i < length rows - 1" and k: "k < 13"
    and f: "js_index (rows ! (i + 1)) k \<in> {JUndefined, JNull, JBool False, JNum 0, JStr ''''}"
  from f have "\<not> truthy (js_index (rows ! (i + 1)) k)" by (simp only: falsy_iff)
  then have "js_or (js_index (rows ! (i + 1)) k) (JStr '''') = JStr ''''"
    by (simp add: js_or_def)
  with i k show ?thesis
    by (simp add: nth_sheetRows cells_of_mapRow del: upt_Suc)
qed

theorem falsy_cell_empty_witness:
  "cells_of (sheetRows sheet_with_zero ! 0) ! 6 = JStr ''''
   \<and> cells_of (sheetRows (map (take 6) sheet_with_zero) ! 0) ! 6 = JStr ''''"
  using falsy_cell_empty [of 0 sheet_with_zero 6]
        falsy_cell_empty [of 0 "map (take 6) sheet_with_zero" 6]
  by (simp add: sheet_with_zero_def js_index_def)

text \<open>
  C10. Two sheets that agree on the cells 0 to 12 of every row after the first give the
  same records: the header row and the cells from index 13 on (the submission date and
  whatever else the range \<open>A:O\<close> brings) never reach a record.
\<close>

lemma mapRow_cong:
  assumes "list_all (\<lambda>k. js_index r k = js_index r' k) [0..<13]"
  shows "mapRow r i = mapRow r' i"
  using assms unfolding upt_13 by (simp add: mapRow_def)

theorem extra_columns_hidden:
  "same_displayed_cells a b \<Longrightarrow> sheetRows a = sheetRows b"
proof -
  assume "same_displayed_cells a b"
  then have all: "list_all2 (\<lambda>r r'. list_all (\<lambda>k. js_index r k = js_index r' k) [0..<13])
       (drop 1 a) (drop 1 b)" by (simp add: same_displayed_cells_def)
  then have len: "length (drop 1 a) = length (drop 1 b)" by (rule list_all2_lengthD)
  show ?thesis
  proof (rule nth_equalityI)
    show "length (sheetRows a) = length (sheetRows b)" using len by (simp add: length_sheetRows)
  next
    fix i assume "i < length (sheetRows a)"
    then have ia: "i < length a - 1" by (simp add: length_sheetRows)
    with len have ib: "i < length b - 1" by simp
    from ia have ida: "i < length (drop 1 a)" by simp
    have "list_all (\<lambda>k. js_index (drop 1 a ! i) k = js_index (drop 1 b ! i) k) [0..<13]"
      by (rule list_all2_nthD [OF all ida])
    moreover have "drop 1 a ! i = a ! (i + 1)" "drop 1 b ! i = b ! (i + 1)"
      using ia ib by simp_all
    ultimately have "mapRow (a ! (i + 1)) i = mapRow (b ! (i + 1)) i"
      by (intro mapRow_cong) (simp only:)
    with ia ib show "sheetRows a ! i = sheetRows b ! i" by (simp add: nth_sheetRows)
  qed
qed

theorem extra_columns_hidden_witness:
  "same_displayed_cells sheet_a sheet_b \<and> sheet_a \<noteq> sheet_b
     \<and> sheetRows sheet_a = sheetRows sheet_b"
proof -
  have h: "same_displayed_cells sheet_a sheet_b"
    by (simp add: same_displayed_cells_def sheet_a_def sheet_b_def upt_13 js_index_def)
  have "sheet_a \<noteq> sheet_b" by (simp add: sheet_a_def sheet_b_def)
  with h extra_columns_hidden [OF h] show ?thesis by simp
qed

section \<open>Properties of the Date operations\<close>

subsection \<open>Years\<close>

text \<open>
  The first day of the next year is \<open>DaysInYear\<close> days later, so \<open>DayFromYear\<close> is
  monotone; the estimate in \<open>YearFromTime\<close> is at most one year off; hence
  \<open>YearFromTime\<close> is the year the language specification asks for.
\<close>

lemma div_next:
  fixes a n :: int
  assumes "0 < n"
  shows "(a + 1) div n = a div n + (if n dvd a + 1 then 1 else 0)"
proof (cases "a mod n = n - 1")
  case True
  have "a = n * (a div n) + a mod n" by simp
  with True have "a = n * (a div n) + (n - 1)" by simp
  then have e: "a + 1 = n * (a div n + 1) + 0" by (simp add: algebra_simps)
  have "(a + 1) div n = a div n + 1"
    by (rule int_div_pos_eq [OF e]) (use assms in simp_all)
  moreover have "n dvd a + 1" using e by (metis add.right_neutral dvd_triv_left)
  ultimately show ?thesis by simp
next
  case False
  have r: "0 \<le> a mod n" "a mod n < n" using assms by simp_all
  with False have lt: "a mod n + 1 < n" by linarith
  have "a = n * (a div n) + a mod n" by simp
  then have e: "a + 1 = n * (a div n) + (a mod n + 1)" by linarith
  have d: "(a + 1) div n = a div n"
    by (rule int_div_pos_eq [OF e]) (use r lt in simp_all)
  have "(a + 1) mod n = a mod n + 1"
    by (rule int_mod_pos_eq [OF e]) (use r lt in simp_all)
  with r have "(a + 1) mod n \<noteq> 0" by linarith
  then have "\<not> n dvd a + 1" by (simp add: dvd_eq_mod_eq_0)
  with d show ?thesis by simp
qed

lemma dvd_shift:
  fixes y c n :: int
  assumes "n dvd c"
  shows "(n dvd y - c) = (n dvd y)"
  using assms by (metis dvd_diff dvd_add diff_add_cancel)

lemma DaysInYear_dvd:
  "DaysInYear y =
     (if \<not> 4 dvd y then 365 else if \<not> 100 dvd y then 366 else if \<not> 400 dvd y then 365 else 366)"
  by (simp add: DaysInYear_def dvd_eq_mod_eq_0)

lemma DayFromYear_next: "DayFromYear (y + 1) = DayFromYear y + DaysInYear y"
proof -
  have a: "(y + 1 - 1969) div 4 = (y - 1969) div 4 + (if 4 dvd y then 1 else 0)"
    using div_next [of 4 "y - 1969"] dvd_shift [of 4 1968 y] by (simp add: algebra_simps)
  have b: "(y + 1 - 1901) div 100 = (y - 1901) div 100 + (if 100 dvd y then 1 else 0)"
    using div_next [of 100 "y - 1901"] dvd_shift [of 100 1900 y] by (simp add: algebra_simps)
  have c: "(y + 1 - 1601) div 400 = (y - 1601) div 400 + (if 400 dvd y then 1 else 0)"
    using div_next [of 400 "y - 1601"] dvd_shift [of 400 1600 y] by (simp add: algebra_simps)
  have d1: "400 dvd y \<Longrightarrow> 100 dvd y" by (rule dvd_trans [of 100 400]) simp_all
  have d2: "100 dvd y \<Longrightarrow> 4 dvd y" by (rule dvd_trans [of 4 100]) simp_all
  show ?thesis
    unfolding DayFromYear_def DaysInYear_dvd a b c using d1 d2 by auto
qed

lemma DaysInYear_ge: "365 \<le> DaysInYear y"
  by (simp add: DaysInYear_def)


lemma DayFromYear_mono_aux: "0 \<le> k \<Longrightarrow> DayFromYear y \<le> DayFromYear (y + k)"
proof (induction k rule: int_ge_induct)
  case base
  then show ?case by simp
next
  case (step i)
  have "DayFromYear (y + (i + 1)) = DayFromYear (y + i) + DaysInYear (y + i)"
    using DayFromYear_next [of "y + i"] by (simp add: add.assoc)
  with step DaysInYear_ge [of "y + i"] show ?case by linarith
qed

lemma DayFromYear_mono: "y \<le> z \<Longrightarrow> DayFromYear y \<le> DayFromYear z"
  using DayFromYear_mono_aux [of "z - y" y] by simp

lemma year_estimate_low: "DayFromYear (1970 + (400 * d) div 146097 - 1) \<le> d"
proof -
  define x where "x = (400 * d) div 146097"
  define q4 where "q4 = x div 4"
  define q100 where "q100 = (x + 68) div 100"
  define q400 where "q400 = (x + 368) div 400"
  have a: "146097 * x \<le> 400 * d" unfolding x_def by linarith
  have b: "400 * q4 \<le> 100 * x" unfolding q4_def by linarith
  have c: "4 * x - 124 \<le> 400 * q100" unfolding q100_def by linarith
  have e: "400 * q400 \<le> x + 368" unfolding q400_def by linarith
  have "DayFromYear (1970 + x - 1) = 365 * (x - 1) + q4 - q100 + q400"
    unfolding DayFromYear_def q4_def q100_def q400_def by (simp add: algebra_simps)
  moreover have "365 * (x - 1) + q4 - q100 + q400 \<le> d"
  proof -
    have "400 * (365 * (x - 1) + q4 - q100 + q400) \<le> 400 * d"
      using a b c e by (simp add: algebra_simps)
    then show ?thesis by simp
  qed
  ultimately show ?thesis unfolding x_def by linarith
qed

lemma year_estimate_high: "d < DayFromYear (1970 + (400 * d) div 146097 + 2)"
proof -
  define x where "x = (400 * d) div 146097"
  define q4 where "q4 = (x + 3) div 4"
  define q100 where "q100 = (x + 71) div 100"
  define q400 where "q400 = (x + 371) div 400"
  have a: "400 * d < 146097 * x + 146097" unfolding x_def by linarith
  have b: "100 * x \<le> 400 * q4" unfolding q4_def by linarith
  have c: "400 * q100 \<le> 4 * x + 284" unfolding q100_def by linarith
  have e: "x + 371 - 399 \<le> 400 * q400" unfolding q400_def by linarith
  have "DayFromYear (1970 + x + 2) = 365 * (x + 2) + q4 - q100 + q400"
    unfolding DayFromYear_def q4_def q100_def q400_def by (simp add: algebra_simps)
  moreover have "d < 365 * (x + 2) + q4 - q100 + q400"
  proof -
    have "400 * d < 400 * (365 * (x + 2) + q4 - q100 + q400)"
      using a b c e by (simp add: algebra_simps)
    then show ?thesis by simp
  qed
  ultimately show ?thesis unfolding x_def by linarith
qed

lemma YearFromTime_bounds:
  "DayFromYear (YearFromTime t) \<le> Day t \<and> Day t < DayFromYear (YearFromTime t + 1)"
proof -
  define d where "d = Day t"
  define y where "y = 1970 + (400 * d) div 146097"
  have lo: "DayFromYear (y - 1) \<le> d" using year_estimate_low [of d] by (simp add: y_def)
  have hi: "d < DayFromYear (y + 2)" using year_estimate_high [of d] by (simp add: y_def)
  have n1: "DayFromYear (y - 1 + 1) = DayFromYear y" by simp
  have n2: "DayFromYear (y + 1 + 1) = DayFromYear (y + 2)" by (simp add: add.assoc)
  have Y: "YearFromTime t =
      (if d < DayFromYear y then y - 1 else if DayFromYear (y + 1) \<le> d then y + 1 else y)"
    by (simp add: YearFromTime_def Let_def d_def y_def)
  show ?thesis
    unfolding Y d_def [symmetric] using lo hi n1 n2 by auto
qed


lemma msPerDay_pos: "0 < msPerDay" by (simp add: msPerDay_def)

lemma Day_ge_iff: "(d \<le> Day t) = (msPerDay * d \<le> t)"
  unfolding Day_def msPerDay_def by linarith

lemma YearFromTime_largest:
  "TimeFromYear (YearFromTime t) \<le> t \<and> (\<forall>y. TimeFromYear y \<le> t \<longrightarrow> y \<le> YearFromTime t)"
proof (intro conjI allI impI)
  show "TimeFromYear (YearFromTime t) \<le> t"
    using YearFromTime_bounds [of t] by (simp add: TimeFromYear_def Day_ge_iff)
next
  fix y assume "TimeFromYear y \<le> t"
  then have d: "DayFromYear y \<le> Day t" by (simp add: TimeFromYear_def Day_ge_iff)
  show "y \<le> YearFromTime t"
  proof (rule ccontr)
    assume "\<not> y \<le> YearFromTime t"
    then have "DayFromYear (YearFromTime t + 1) \<le> DayFromYear y" by (intro DayFromYear_mono) simp
    with d YearFromTime_bounds [of t] show False by linarith
  qed
qed

subsection \<open>Months and days\<close>






subsection \<open>Digits\<close>




lemma is_digit_not_mark:
  "is_digit c \<Longrightarrow> c \<noteq> CHR ''T'' \<and> c \<noteq> CHR ''-'' \<and> c \<noteq> CHR ''+''"
  by (auto simp add: is_digit_def)









lemma takeWhile_date:
  assumes "list_all is_digit ys" "list_all is_digit ms" "list_all is_digit ds"
  shows "takeWhile (\<lambda>c. c \<noteq> CHR ''T'') (ys @ ''-'' @ ms @ ''-'' @ ds @ ''T'' @ rest)
           = ys @ ''-'' @ ms @ ''-'' @ ds"
proof -
  have "\<forall>c \<in> set (ys @ ''-'' @ ms @ ''-'' @ ds). c \<noteq> CHR ''T''"
    using assms is_digit_not_mark by (auto simp add: list_all_iff)
  then have "takeWhile (\<lambda>c. c \<noteq> CHR ''T'') ((ys @ ''-'' @ ms @ ''-'' @ ds) @ CHR ''T'' # rest)
      = ys @ ''-'' @ ms @ ''-'' @ ds"
    by (simp only: takeWhile_tail [of "\<lambda>c. c \<noteq> CHR ''T''" "CHR ''T''", simplified]
        takeWhile_eq_all_conv)
  then show ?thesis by simp
qed

subsection \<open>The date part of the ISO string\<close>









lemma isoDate_None:
  "Date_parse host s = None \<Longrightarrow> isoDate host s = Inl (JsError ''Invalid time value'')"
  by (simp add: isoDate_def)




section \<open>Properties of the endpoints\<close>

lemma toISOString_nonempty: "toISOString t \<noteq> []"
  by (simp add: toISOString_def)

text \<open>
  C1. For a JSON body that is an object with the twelve required fields, \<open>POST\<close> makes
  one call to the backend's append, on the range \<open>Sheet1!A:N\<close>, with a single row of
  fourteen elements: the twelve fields in the order jobNumber, customerName, jobName,
  jobLocation, salesPerson, jobSize, quantity, jobCategory, jobBookedDate, jobStatus,
  deliveryDate, deliveryDetails; then the remark, which is the empty string when the
  body has none (or a falsy one); then the ISO timestamp of the server's clock, which
  is never empty.
\<close>

theorem POST_appends_row:
  assumes "map_of kvs ''jobNumber'' = Some v0" and "map_of kvs ''customerName'' = Some v1"
    and "map_of kvs ''jobName'' = Some v2" and "map_of kvs ''jobLocation'' = Some v3"
    and "map_of kvs ''salesPerson'' = Some v4" and "map_of kvs ''jobSize'' = Some v5"
    and "map_of kvs ''quantity'' = Some v6" and "map_of kvs ''jobCategory'' = Some v7"
    and "map_of kvs ''jobBookedDate'' = Some v8" and "map_of kvs ''jobStatus'' = Some v9"
    and "map_of kvs ''deliveryDate'' = Some v10" and "map_of kvs ''deliveryDetails'' = Some v11"
  shows "snd (POST sid now valuesAppend (Inr (JObj kvs))) =
           [\<lparr> spreadsheetId = sid, sheetRange = ''Sheet1!A:N'',
              valueInputOption = ''USER_ENTERED'',
              requestBody_values =
                [[v0, v1, v2, v3, v4, v5, v6, v7, v8, v9, v10, v11,
                  (case map_of kvs ''remark'' of
                     None \<Rightarrow> JStr ''''
                   | Some r \<Rightarrow> if truthy r then r else JStr ''''),
                  JStr (toISOString now)]] \<rparr>]
         \<and> toISOString now \<noteq> []"
proof -
  have row: "rowData (JObj kvs) (toISOString now) =
      [v0, v1, v2, v3, v4, v5, v6, v7, v8, v9, v10, v11,
       (case map_of kvs ''remark'' of None \<Rightarrow> JStr '''' | Some r \<Rightarrow> if truthy r then r else JStr ''''),
       JStr (toISOString now)]"
    using assms by (simp add: rowData_def js_or_def split: option.split)
  have "snd (POST sid now valuesAppend (Inr (JObj kvs))) =
          [\<lparr> spreadsheetId = sid, sheetRange = ''Sheet1!A:N'',
              valueInputOption = ''USER_ENTERED'',
              requestBody_values = [rowData (JObj kvs) (toISOString now)] \<rparr>]"
    by (simp add: POST_def nullish_def Let_def split: sum.split)
  with row show ?thesis by (simp add: toISOString_nonempty)
qed

theorem POST_appends_row_witness:
  "snd (POST (Some ''sheet-1'') 1705312800000 backend_accepts (Inr (json_body example_form))) =
     [\<lparr> spreadsheetId = Some ''sheet-1'', sheetRange = ''Sheet1!A:N'',
        valueInputOption = ''USER_ENTERED'',
        requestBody_values =
          [[JStr ''J001'', JStr ''Acme'', JStr ''Flyer'', JStr ''Pune'', JStr ''Ravi'',
            JStr ''A4'', JStr ''500'', JStr ''Print'', JStr ''2024-01-15'', JStr ''Pending'',
            JStr ''2024-02-01'', JStr ''Courier'', JStr '''',
            JStr ''2024-01-15T10:00:00.000Z'']] \<rparr>]"
proof -
  have ts: "toISOString 1705312800000 = ''2024-01-15T10:00:00.000Z''" by code_simp
  have b: "json_body example_form =
     JObj [(''jobNumber'', JStr ''J001''), (''customerName'', JStr ''Acme''),
           (''jobName'', JStr ''Flyer''), (''jobLocation'', JStr ''Pune''),
           (''salesPerson'', JStr ''Ravi''), (''jobSize'', JStr ''A4''),
           (''quantity'', JStr ''500''), (''jobCategory'', JStr ''Print''),
           (''jobBookedDate'', JStr ''2024-01-15''), (''jobStatus'', JStr ''Pending''),
           (''deliveryDate'', JStr ''2024-02-01''), (''deliveryDetails'', JStr ''Courier'')]"
    by (simp add: json_body_def example_form_def)
  show ?thesis
    unfolding b
    using POST_appends_row [of _ "JStr ''J001''" "JStr ''Acme''" "JStr ''Flyer''" "JStr ''Pune''"
        "JStr ''Ravi''" "JStr ''A4''" "JStr ''500''" "JStr ''Print''" "JStr ''2024-01-15''"
        "JStr ''Pending''" "JStr ''2024-02-01''" "JStr ''Courier''"
        "Some ''sheet-1''" 1705312800000 backend_accepts, unfolded ts]
    by simp
qed

text \<open>The four ways through \<open>POST\<close>.\<close>

lemma POST_json_error:
  "POST sid now va (Inl e) = (POST_failed e, [])"
  by (simp add: POST_def)

lemma POST_null:
  "nullish b \<Longrightarrow> POST sid now va (Inr b) = (POST_failed (TypeError_reading b ''jobNumber''), [])"
  by (simp add: POST_def)

lemma POST_rejected:
  "\<not> nullish b \<Longrightarrow> va (appendCall sid now b) = Inl e
     \<Longrightarrow> POST sid now va (Inr b) = (POST_failed e, [appendCall sid now b])"
  by (simp add: POST_def Let_def appendCall_def)

lemma POST_accepted:
  "\<not> nullish b \<Longrightarrow> va (appendCall sid now b) = Inr d
     \<Longrightarrow> POST sid now va (Inr b) =
          (\<lparr> status = 200, body = SubmitOk ''Job entry submitted successfully!'' d \<rparr>,
           [appendCall sid now b])"
  by (simp add: POST_def Let_def appendCall_def)

lemma POST_failed_status: "status (POST_failed e) = 500"
  by (simp add: POST_failed_def)

lemma POST_failed_body:
  "\<exists>detail. body (POST_failed e) = SubmitError ''Failed to submit job entry'' detail"
  by (simp add: POST_failed_def)

lemma POST_failed_eq:
  "POST_failed e =
     \<lparr> status = 500,
       body = SubmitError ''Failed to submit job entry''
                (case e of JsError m \<Rightarrow> m | NotAnError \<Rightarrow> ''Unknown error'') \<rparr>"
  by (simp add: POST_failed_def)

lemma TypeError_reading_null:
  "TypeError_reading JNull ''jobNumber''
     = JsError (''Cannot read properties of null (reading '' @ [CHR 0x27] @ ''jobNumber''
                @ [CHR 0x27] @ '')'')"
  by (simp add: TypeError_reading_def)

text \<open>
  C5. \<open>POST\<close> calls the backend's append at most once (no retry). It answers with
  status 200 exactly when it made that call and the call succeeded, and then the body
  is \<open>{success: true, message, data}\<close> with the backend's result as \<open>data\<close>. In
  every other case it answers with status 500 and the body
  \<open>{success: false, message: 'Failed to submit job entry', error}\<close>, whose \<open>error\<close> is
  the message of what was thrown, or \<open>'Unknown error'\<close> when that is not an \<open>Error\<close>:
  thrown by \<open>request.json()\<close> for an unreadable body (no append is then made), by the
  read of \<open>body.jobNumber\<close> for the body \<open>null\<close> (no append either), or by the
  append itself (authentication, network, credentials, backend). A body that is read
  and is not \<open>null\<close> always leads to the one append call.
\<close>

theorem POST_status:
  "length (snd (POST sid now va rj)) \<le> 1
   \<and> (status (fst (POST sid now va rj)) = 200)
       = (\<exists>c d. snd (POST sid now va rj) = [c] \<and> va c = Inr d)
   \<and> (\<forall>c d. snd (POST sid now va rj) = [c] \<and> va c = Inr d \<longrightarrow>
         fst (POST sid now va rj)
           = \<lparr> status = 200, body = SubmitOk ''Job entry submitted successfully!'' d \<rparr>)
   \<and> (status (fst (POST sid now va rj)) \<noteq> 200 \<longrightarrow>
         status (fst (POST sid now va rj)) = 500
         \<and> (\<exists>detail. body (fst (POST sid now va rj))
                        = SubmitError ''Failed to submit job entry'' detail))
   \<and> (\<forall>c e. snd (POST sid now va rj) = [c] \<and> va c = Inl e \<longrightarrow>
         fst (POST sid now va rj)
           = \<lparr> status = 500,
               body = SubmitError ''Failed to submit job entry''
                        (case e of JsError m \<Rightarrow> m | NotAnError \<Rightarrow> ''Unknown error'') \<rparr>)
   \<and> (\<forall>e. rj = Inl e \<longrightarrow>
         POST sid now va rj
           = (\<lparr> status = 500,
                body = SubmitError ''Failed to submit job entry''
                         (case e of JsError m \<Rightarrow> m | NotAnError \<Rightarrow> ''Unknown error'') \<rparr>,
              []))
   \<and> (rj = Inr JNull \<longrightarrow>
         POST sid now va rj
           = (\<lparr> status = 500,
                body = SubmitError ''Failed to submit job entry''
                         (''Cannot read properties of null (reading '' @ [CHR 0x27]
                          @ ''jobNumber'' @ [CHR 0x27] @ '')'') \<rparr>,
              []))
   \<and> (\<forall>b. rj = Inr b \<and> b \<noteq> JNull \<and> b \<noteq> JUndefined \<longrightarrow>
         (\<exists>c. snd (POST sid now va rj) = [c]))"
proof (cases rj)
  case (Inl e)
  then show ?thesis
    by (simp add: POST_json_error POST_failed_status POST_failed_eq)
next
  case (Inr b)
  show ?thesis
  proof (cases "nullish b")
    case True
    then have "b = JNull \<or> b = JUndefined" by (simp add: nullish_def)
    then show ?thesis
    proof
      assume "b = JNull"
      with Inr True show ?thesis
        by (simp add: POST_null POST_failed_eq TypeError_reading_null)
    next
      assume "b = JUndefined"
      with Inr True show ?thesis
        by (simp add: POST_null POST_failed_eq TypeError_reading_def)
    qed
  next
    case False
    then have nn: "b \<noteq> JNull" "b \<noteq> JUndefined" by (simp_all add: nullish_def)
    show ?thesis
    proof (cases "va (appendCall sid now b)")
      case (Inl e)
      with Inr False nn show ?thesis
        by (simp add: POST_rejected POST_failed_eq)
    next
      case d: (Inr d)
      with Inr False nn show ?thesis
        by (simp add: POST_accepted)
    qed
  qed
qed

theorem POST_status_witness:
  "fst (POST (Some ''sheet-1'') 1705312800000 backend_accepts (Inr (json_body example_form)))
     = \<lparr> status = 200,
         body = SubmitOk ''Job entry submitted successfully!''
                  (JObj [(''updates'', JObj [(''updatedRows'', JNum 1)])]) \<rparr>
   \<and> status (fst (POST (Some ''sheet-1'') 1705312800000 backend_rejects
                   (Inr (json_body example_form)))) = 500
   \<and> fst (POST (Some ''sheet-1'') 1705312800000 backend_rejects (Inr (json_body example_form)))
       = \<lparr> status = 500,
           body = SubmitError ''Failed to submit job entry''
                    ''The caller does not have permission'' \<rparr>
   \<and> fst (POST (Some ''sheet-1'') 1705312800000 backend_throws_value
              (Inr (json_body example_form)))
       = \<lparr> status = 500,
           body = SubmitError ''Failed to submit job entry'' ''Unknown error'' \<rparr>
   \<and> POST (Some ''sheet-1'') 1705312800000 backend_accepts
         (Inl (JsError ''Unexpected end of JSON input''))
       = (\<lparr> status = 500,
            body = SubmitError ''Failed to submit job entry''
                     ''Unexpected end of JSON input'' \<rparr>, [])
   \<and> POST (Some ''sheet-1'') 1705312800000 backend_accepts (Inr JNull)
       = (\<lparr> status = 500,
            body = SubmitError ''Failed to submit job entry''
                     (''Cannot read properties of null (reading '' @ [CHR 0x27]
                      @ ''jobNumber'' @ [CHR 0x27] @ '')'') \<rparr>, [])
   \<and> length (snd (POST (Some ''sheet-1'') 1705312800000 backend_rejects
                   (Inr (json_body example_form)))) = 1"
proof -
  define b where "b = json_body example_form"
  define c where "c = appendCall (Some ''sheet-1'') 1705312800000 b"
  define ok where "ok = POST (Some ''sheet-1'') 1705312800000 backend_accepts (Inr b)"
  define rej where "rej = POST (Some ''sheet-1'') 1705312800000 backend_rejects (Inr b)"
  define val where "val = POST (Some ''sheet-1'') 1705312800000 backend_throws_value (Inr b)"
  have nn: "\<not> nullish b" by (simp add: b_def json_body_def nullish_def)
  have a: "snd ok = [c]"
    unfolding ok_def c_def using nn by (simp add: POST_accepted backend_accepts_def)
  have r: "snd rej = [c]"
    unfolding rej_def c_def using nn by (simp add: POST_rejected backend_rejects_def)
  have v: "snd val = [c]"
    unfolding val_def c_def using nn by (simp add: POST_rejected backend_throws_value_def)
  have ac: "backend_accepts c = Inr (JObj [(''updates'', JObj [(''updatedRows'', JNum 1)])])"
    by (simp add: backend_accepts_def)
  have rc: "backend_rejects c = Inl (JsError ''The caller does not have permission'')"
    by (simp add: backend_rejects_def)
  have vc: "backend_throws_value c = Inl NotAnError"
    by (simp add: backend_throws_value_def)
  from POST_status [of "Some ''sheet-1''" 1705312800000 backend_accepts "Inr b"]
  have "\<forall>c d. snd ok = [c] \<and> backend_accepts c = Inr d \<longrightarrow>
         fst ok = \<lparr> status = 200, body = SubmitOk ''Job entry submitted successfully!'' d \<rparr>"
    unfolding ok_def by (elim conjE)
  with a ac have 1: "fst ok = \<lparr> status = 200,
         body = SubmitOk ''Job entry submitted successfully!''
                  (JObj [(''updates'', JObj [(''updatedRows'', JNum 1)])]) \<rparr>"
    by blast
  from POST_status [of "Some ''sheet-1''" 1705312800000 backend_rejects "Inr b"]
  have "\<forall>c e. snd rej = [c] \<and> backend_rejects c = Inl e \<longrightarrow>
         fst rej = \<lparr> status = 500,
               body = SubmitError ''Failed to submit job entry''
                        (case e of JsError m \<Rightarrow> m | NotAnError \<Rightarrow> ''Unknown error'') \<rparr>"
    unfolding rej_def by (elim conjE)
  with r rc have "fst rej = \<lparr> status = 500,
               body = SubmitError ''Failed to submit job entry''
                        (case JsError ''The caller does not have permission'' of
                           JsError m \<Rightarrow> m | NotAnError \<Rightarrow> ''Unknown error'') \<rparr>"
    by blast
  then have 2: "fst rej = \<lparr> status = 500,
           body = SubmitError ''Failed to submit job entry''
                    ''The caller does not have permission'' \<rparr>" by simp
  from POST_status [of "Some ''sheet-1''" 1705312800000 backend_throws_value "Inr b"]
  have "\<forall>c e. snd val = [c] \<and> backend_throws_value c = Inl e \<longrightarrow>
         fst val = \<lparr> status = 500,
               body = SubmitError ''Failed to submit job entry''
                        (case e of JsError m \<Rightarrow> m | NotAnError \<Rightarrow> ''Unknown error'') \<rparr>"
    unfolding val_def by (elim conjE)
  with v vc have "fst val = \<lparr> status = 500,
               body = SubmitError ''Failed to submit job entry''
                        (case NotAnError of
                           JsError m \<Rightarrow> m | NotAnError \<Rightarrow> ''Unknown error'') \<rparr>"
    by blast
  then have 3: "fst val = \<lparr> status = 500,
           body = SubmitError ''Failed to submit job entry'' ''Unknown error'' \<rparr>" by simp
  from POST_status [of "Some ''sheet-1''" 1705312800000 backend_accepts
      "Inl (JsError ''Unexpected end of JSON input'')"]
  have "\<forall>e. Inl (JsError ''Unexpected end of JSON input'') = (Inl e :: thrown + jsval) \<longrightarrow>
         POST (Some ''sheet-1'') 1705312800000 backend_accepts
           (Inl (JsError ''Unexpected end of JSON input''))
           = (\<lparr> status = 500,
                body = SubmitError ''Failed to submit job entry''
                         (case e of JsError m \<Rightarrow> m | NotAnError \<Rightarrow> ''Unknown error'') \<rparr>,
              [])"
    by (elim conjE)
  then have "POST (Some ''sheet-1'') 1705312800000 backend_accepts
           (Inl (JsError ''Unexpected end of JSON input''))
           = (\<lparr> status = 500,
                body = SubmitError ''Failed to submit job entry''
                         (case JsError ''Unexpected end of JSON input'' of
                            JsError m \<Rightarrow> m | NotAnError \<Rightarrow> ''Unknown error'') \<rparr>,
              [])"
    by blast
  then have 4: "POST (Some ''sheet-1'') 1705312800000 backend_accepts
         (Inl (JsError ''Unexpected end of JSON input''))
       = (\<lparr> status = 500,
            body = SubmitError ''Failed to submit job entry''
                     ''Unexpected end of JSON input'' \<rparr>, [])" by simp
  from POST_status [of "Some ''sheet-1''" 1705312800000 backend_accepts "Inr JNull"]
  have "(Inr JNull :: thrown + jsval) = Inr JNull \<longrightarrow>
         POST (Some ''sheet-1'') 1705312800000 backend_accepts (Inr JNull)
           = (\<lparr> status = 500,
                body = SubmitError ''Failed to submit job entry''
                         (''Cannot read properties of null (reading '' @ [CHR 0x27]
                          @ ''jobNumber'' @ [CHR 0x27] @ '')'') \<rparr>,
              [])"
    by (elim conjE)
  then have 5: "POST (Some ''sheet-1'') 1705312800000 backend_accepts (Inr JNull)
           = (\<lparr> status = 500,
                body = SubmitError ''Failed to submit job entry''
                         (''Cannot read properties of null (reading '' @ [CHR 0x27]
                          @ ''jobNumber'' @ [CHR 0x27] @ '')'') \<rparr>,
              [])"
    by blast
  have 6: "status (fst rej) = 500" by (simp add: 2)
  have 7: "length (snd rej) = 1" by (simp add: r)
  show ?thesis
    using 1 2 3 4 5 6 7 unfolding ok_def rej_def val_def b_def by (intro conjI)
qed

text \<open>
  C6. When the sheet id is configured and the backend's read succeeds, \<open>GET\<close> answers
  with status 200 and \<open>{success: true, data}\<close>, \<open>data\<close> being the values read, or the
  empty array when the backend's response has none. When the sheet id is not configured
  or the read fails, whatever it throws, the answer is the one response of status 500
  with the body \<open>{success: false, message: 'Failed to fetch sheet data'}\<close>, which
  carries nothing of the error. The backend is read at most once.
\<close>

theorem GET_response:
  "(sid \<noteq> None \<and> sid \<noteq> Some [] \<and>
      valuesGet \<lparr> spreadsheetId = sid, sheetRange = ''Sheet1!A:O'' \<rparr> = Inr vs \<longrightarrow>
        fst (GET sid valuesGet)
          = \<lparr> status = 200, body = SheetOk (case vs of Some rows \<Rightarrow> rows | None \<Rightarrow> []) \<rparr>)
   \<and> (sid = None \<or> sid = Some [] \<or>
      valuesGet \<lparr> spreadsheetId = sid, sheetRange = ''Sheet1!A:O'' \<rparr> = Inl e \<longrightarrow>
        fst (GET sid valuesGet)
          = \<lparr> status = 500, body = SheetError ''Failed to fetch sheet data'' \<rparr>)
   \<and> length (snd (GET sid valuesGet)) \<le> 1"
  by (auto simp add: GET_def GET_failed_def Let_def split: sum.split)

theorem GET_response_witness:
  "fst (GET (Some ''sheet-1'') (read_returns (Some sheet_a)))
     = \<lparr> status = 200, body = SheetOk sheet_a \<rparr>
   \<and> fst (GET (Some ''sheet-1'') (read_returns None)) = \<lparr> status = 200, body = SheetOk [] \<rparr>
   \<and> fst (GET (Some ''sheet-1'') read_rejects)
       = \<lparr> status = 500, body = SheetError ''Failed to fetch sheet data'' \<rparr>
   \<and> fst (GET None (read_returns (Some sheet_a)))
       = \<lparr> status = 500, body = SheetError ''Failed to fetch sheet data'' \<rparr>"
  using GET_response [of "Some ''sheet-1''" "read_returns (Some sheet_a)" "Some sheet_a"]
        GET_response [of "Some ''sheet-1''" "read_returns None" None]
        GET_response [of "Some ''sheet-1''" read_rejects _ "JsError ''Requested entity was not found''"]
        GET_response [of None "read_returns (Some sheet_a)"]
  by (simp add: read_returns_def read_rejects_def)

section \<open>Properties of the page\<close>

text \<open>The five ways through \<open>onSubmit\<close>.\<close>

lemma onSubmit_failed_simps:
  "formValues (fst (onSubmit_failed e st made)) = formValues st"
  "map_option success (submitStatus (fst (onSubmit_failed e st made))) = Some False"
  "snd (onSubmit_failed e st made) = made @ [ConsoleError, SetTimeout 5000]"
  by (simp_all add: onSubmit_failed_def)

lemma onSubmit_format_throws:
  "formattedData host fd = Inl e \<Longrightarrow>
     onSubmit host submit fd st = onSubmit_failed e (st\<lparr>isSubmitting := True, submitStatus := None\<rparr>) []"
  by (simp add: onSubmit_def Let_def)

lemma onSubmit_rejected:
  "formattedData host fd = Inr f \<Longrightarrow> submit f = Rejected e \<Longrightarrow>
     onSubmit host submit fd st
       = onSubmit_failed e (st\<lparr>isSubmitting := True, submitStatus := None\<rparr>) [PostSubmit f]"
  by (simp add: onSubmit_def Let_def)

lemma onSubmit_not_json:
  "formattedData host fd = Inr f \<Longrightarrow> submit f = NotJson ok e \<Longrightarrow>
     onSubmit host submit fd st
       = onSubmit_failed e (st\<lparr>isSubmitting := True, submitStatus := None\<rparr>) [PostSubmit f]"
  by (simp add: onSubmit_def Let_def)

lemma onSubmit_not_ok:
  "formattedData host fd = Inr f \<Longrightarrow> submit f = Json False r \<Longrightarrow>
     onSubmit host submit fd st
       = onSubmit_failed (JsError (or_string (message_of r) ''Failed to submit job entry''))
           (st\<lparr>isSubmitting := True, submitStatus := None\<rparr>) [PostSubmit f]"
  by (simp add: onSubmit_def Let_def)

lemma onSubmit_ok:
  "formattedData host fd = Inr f \<Longrightarrow> submit f = Json True r \<Longrightarrow>
     onSubmit host submit fd st
       = (st\<lparr> isSubmitting := False,
               submitStatus := Some \<lparr> success = True,
                   message = or_string (message_of r) ''Job entry submitted successfully!'' \<rparr>,
               formValues := emptyForm \<rparr>,
          [PostSubmit f, Reset] @ (if activeTab st = View then [FetchSheetData] else [])
            @ [SetTimeout 5000])"
  by (simp add: onSubmit_def Let_def)

lemma submitted_ok_iff:
  "submitted_ok host submit fd = (\<exists>f r. formattedData host fd = Inr f \<and> submit f = Json True r)"
  by (auto simp add: submitted_ok_def split: sum.splits fetched.splits)

lemma onSubmit_when_ok:
  assumes "submitted_ok host submit fd"
  shows "formValues (fst (onSubmit host submit fd st)) = emptyForm"
    and "map_option success (submitStatus (fst (onSubmit host submit fd st))) = Some True"
    and "Reset \<in> set (snd (onSubmit host submit fd st))"
    and "count_list (snd (onSubmit host submit fd st)) FetchSheetData
           = (if activeTab st = View then 1 else 0)"
proof -
  from assms obtain f r where "formattedData host fd = Inr f" "submit f = Json True r"
    by (auto simp add: submitted_ok_iff)
  then have eq: "onSubmit host submit fd st
       = (st\<lparr> isSubmitting := False,
               submitStatus := Some \<lparr> success = True,
                   message = or_string (message_of r) ''Job entry submitted successfully!'' \<rparr>,
               formValues := emptyForm \<rparr>,
          [PostSubmit f, Reset] @ (if activeTab st = View then [FetchSheetData] else [])
            @ [SetTimeout 5000])" by (rule onSubmit_ok)
  show "formValues (fst (onSubmit host submit fd st)) = emptyForm" by (simp add: eq)
  show "map_option success (submitStatus (fst (onSubmit host submit fd st))) = Some True"
    by (simp add: eq)
  show "Reset \<in> set (snd (onSubmit host submit fd st))" by (simp add: eq)
  show "count_list (snd (onSubmit host submit fd st)) FetchSheetData
           = (if activeTab st = View then 1 else 0)" by (simp add: eq)
qed

lemma onSubmit_when_failed:
  assumes "\<not> submitted_ok host submit fd"
  shows "formValues (fst (onSubmit host submit fd st)) = formValues st"
    and "map_option success (submitStatus (fst (onSubmit host submit fd st))) = Some False"
    and "Reset \<notin> set (snd (onSubmit host submit fd st))"
    and "count_list (snd (onSubmit host submit fd st)) FetchSheetData = 0"
proof -
  have "\<exists>e made. onSubmit host submit fd st
          = onSubmit_failed e (st\<lparr>isSubmitting := True, submitStatus := None\<rparr>) made
          \<and> (made = [] \<or> (\<exists>f. made = [PostSubmit f]))"
  proof (cases "formattedData host fd")
    case (Inl e)
    then have "onSubmit host submit fd st
          = onSubmit_failed e (st\<lparr>isSubmitting := True, submitStatus := None\<rparr>) []"
      by (rule onSubmit_format_throws)
    then show ?thesis by blast
  next
    case (Inr f)
    show ?thesis
    proof (cases "submit f")
      case (Rejected e)
      with Inr have "onSubmit host submit fd st
          = onSubmit_failed e (st\<lparr>isSubmitting := True, submitStatus := None\<rparr>) [PostSubmit f]"
        by (simp add: onSubmit_rejected)
      then show ?thesis by blast
    next
      case (NotJson ok e)
      with Inr have "onSubmit host submit fd st
          = onSubmit_failed e (st\<lparr>isSubmitting := True, submitStatus := None\<rparr>) [PostSubmit f]"
        by (simp add: onSubmit_not_json)
      then show ?thesis by blast
    next
      case (Json ok r)
      with Inr assms have "\<not> ok" by (simp add: submitted_ok_def)
      with Inr Json have "onSubmit host submit fd st
          = onSubmit_failed (JsError (or_string (message_of r) ''Failed to submit job entry''))
              (st\<lparr>isSubmitting := True, submitStatus := None\<rparr>) [PostSubmit f]"
        by (simp add: onSubmit_not_ok)
      then show ?thesis by blast
    qed
  qed
  then obtain e made where eq: "onSubmit host submit fd st
          = onSubmit_failed e (st\<lparr>isSubmitting := True, submitStatus := None\<rparr>) made"
    and made: "made = [] \<or> (\<exists>f. made = [PostSubmit f])" by blast
  show "formValues (fst (onSubmit host submit fd st)) = formValues st"
    by (simp add: eq onSubmit_failed_simps)
  show "map_option success (submitStatus (fst (onSubmit host submit fd st))) = Some False"
    by (simp add: eq onSubmit_failed_simps)
  show "Reset \<notin> set (snd (onSubmit host submit fd st))"
    using made by (auto simp add: eq onSubmit_failed_simps)
  show "count_list (snd (onSubmit host submit fd st)) FetchSheetData = 0"
    using made by (auto simp add: eq onSubmit_failed_simps)
qed

text \<open>
  C4. \<open>onSubmit\<close> empties the form exactly when the submission succeeded. When it
  failed (a date that cannot be formatted, a rejected request, a body that is not JSON,
  or a response that is not ok) the form's values are what they were and the banner is
  a failure banner; when it succeeded every field is empty and the banner is a success
  banner. \<open>reset()\<close> is called if and only if the submission succeeded.
\<close>

theorem onSubmit_reset_iff_success:
  "formValues (fst (onSubmit host submit fd st))
     = (if submitted_ok host submit fd then emptyForm else formValues st)
   \<and> map_option success (submitStatus (fst (onSubmit host submit fd st)))
       = Some (submitted_ok host submit fd)
   \<and> (Reset \<in> set (snd (onSubmit host submit fd st))) = submitted_ok host submit fd"
  using onSubmit_when_ok [of host submit fd st] onSubmit_when_failed [of host submit fd st]
  by (cases "submitted_ok host submit fd") simp_all

text \<open>
  C3, amended. A submission calls \<open>fetchSheetData\<close> once when it succeeded and the
  active tab of the render its handler belongs to is the view tab, and not at all
  otherwise; whether the view tab was visited earlier plays no part. The entry form is
  rendered on the add tab only, so a submission made from it calls it not at all.
\<close>

theorem onSubmit_refetch:
  "count_list (snd (onSubmit host submit fd st)) FetchSheetData
     = (if submitted_ok host submit fd \<and> activeTab st = View then 1 else 0)
   \<and> (tabContent st = EntryForm \<longrightarrow>
        count_list (snd (onSubmit host submit fd st)) FetchSheetData = 0)"
proof -
  have c: "count_list (snd (onSubmit host submit fd st)) FetchSheetData
     = (if submitted_ok host submit fd \<and> activeTab st = View then 1 else 0)"
    using onSubmit_when_ok(4) [of host submit fd st] onSubmit_when_failed(4) [of host submit fd st]
    by (cases "submitted_ok host submit fd") simp_all
  have "tabContent st = EntryForm \<Longrightarrow> activeTab st = Add"
    by (simp add: tabContent_def split: if_splits)
  with c show ?thesis by auto
qed

lemma fmt_example: "formattedData no_host example_form = Inr example_form"
  by code_simp

lemma visited_tab: "activeTab visited_view_before = Add"
  by (simp add: visited_view_before_def setActiveTab_def fetchSheetData_def init_def)

text \<open>
  C3, as stated, at a session that opened the view tab (which fetched the data), came
  back to the add tab and submitted the example successfully: no fetch follows.
\<close>

theorem no_refetch_after_visit:
  "snd (setActiveTab View init) = [FetchSheetData]
   \<and> submitted_ok no_host network_ok example_form
   \<and> count_list (snd (onSubmit no_host network_ok example_form visited_view_before)) FetchSheetData = 0"
proof -
  have ok: "submitted_ok no_host network_ok example_form"
    by (simp add: submitted_ok_def fmt_example network_ok_def)
  have "onSubmit no_host network_ok example_form visited_view_before
       = (visited_view_before\<lparr> isSubmitting := False,
               submitStatus := Some \<lparr> success = True,
                   message = or_string (message_of (SubmitOk ''Job entry submitted successfully!'' (JObj []))) ''Job entry submitted successfully!'' \<rparr>,
               formValues := emptyForm \<rparr>,
          [PostSubmit example_form, Reset] @ (if activeTab visited_view_before = View then [FetchSheetData] else [])
            @ [SetTimeout 5000])"
    by (rule onSubmit_ok [OF fmt_example]) (simp add: network_ok_def)
  then have "count_list (snd (onSubmit no_host network_ok example_form visited_view_before)) FetchSheetData = 0"
    by (simp add: visited_tab)
  moreover have "snd (setActiveTab View init) = [FetchSheetData]"
    by (simp add: setActiveTab_def init_def)
  ultimately show ?thesis using ok by simp
qed

theorem onSubmit_refetch_witness:
  "tabContent init = EntryForm
   \<and> count_list (snd (onSubmit no_host network_ok example_form init)) FetchSheetData = 0
   \<and> count_list (snd (onSubmit no_host network_ok example_form (init\<lparr>activeTab := View\<rparr>)))
        FetchSheetData = 1"
proof -
  have ok: "submitted_ok no_host network_ok example_form"
    by (simp add: submitted_ok_def fmt_example network_ok_def)
  have t: "tabContent init = EntryForm" by (simp add: tabContent_def init_def)
  from onSubmit_refetch [of no_host network_ok example_form init] t
  have "count_list (snd (onSubmit no_host network_ok example_form init)) FetchSheetData = 0"
    by blast
  moreover from onSubmit_refetch [of no_host network_ok example_form "init\<lparr>activeTab := View\<rparr>"] ok
  have "count_list (snd (onSubmit no_host network_ok example_form (init\<lparr>activeTab := View\<rparr>)))
        FetchSheetData = 1" by simp
  ultimately show ?thesis using t by simp
qed

section \<open>The dates of a submission\<close>





















end
